theory Spec2Isabelle
  imports Complex_Main "HOL-Library.Log_Nat"
begin

section \<open>Floating-point values with a missing marker\<close>

text \<open>
  The notebook computes with Python and NumPy floats, which are IEEE double-precision
  numbers. A float is modelled as either the not-a-number value \<open>NaN\<close> (NumPy's
  \<open>np.nan\<close>, the "missing marker") or a finite number \<open>Num x\<close>, where \<open>x\<close> is the real
  value of the double. The additions, subtractions, multiplications and divisions of the
  spectrum extraction, the line overlay and the line summary round their exact result to
  the nearest double, ties to even; a decimal literal such as \<open>0.1\<close> denotes the
  double nearest to it. Overflow to infinity and the sign of zero are not modelled.
  Comparisons are exact in IEEE arithmetic and are modelled as such: every ordering
  comparison with \<open>NaN\<close> on either side is false. The pixel-scale cell, which computes
  with astropy quantities, is modelled over the exact reals.
\<close>

datatype pyfloat = NaN | Num real

fun isnan :: "pyfloat \<Rightarrow> bool" where
  "isnan NaN = True"
| "isnan (Num x) = False"

text \<open>Python's \<open>a > b\<close> and \<open>a < b\<close> on floats.\<close>

fun fgt :: "pyfloat \<Rightarrow> pyfloat \<Rightarrow> bool" where
  "fgt (Num a) (Num b) = (a > b)"
| "fgt _ _ = False"

fun flt :: "pyfloat \<Rightarrow> pyfloat \<Rightarrow> bool" where
  "flt (Num a) (Num b) = (a < b)"
| "flt _ _ = False"

text \<open>Rounding a real to the nearest integer, a tie going to the even neighbour.\<close>

definition round_half_even :: "real \<Rightarrow> int" where
  "round_half_even x =
     (let f = \<lfloor>x\<rfloor>; d = x - of_int f
      in if d < 1 / 2 then f else if d > 1 / 2 then f + 1 else if even f then f else f + 1)"

text \<open>
  Rounding a real to the nearest double. The doubles are the numbers \<open>m / 2 ^ 1074\<close> and
  their multiples by powers of two, with an integer \<open>m\<close> of at most 53 bits. For a real
  \<open>x\<close>, the number of bits of the integer part of \<open>\<bar>x\<bar> * 2 ^ 1074\<close> beyond 53 is the
  shift \<open>s\<close> of the spacing \<open>2 ^ s / 2 ^ 1074\<close> of the doubles around \<open>x\<close> (the shift is
  0 for the subnormal numbers), and \<open>x\<close> is rounded to the nearest multiple of that
  spacing, a tie going to the even multiple.
\<close>

definition e_min :: nat where
  "e_min = 1074"

definition quantum_shift :: "real \<Rightarrow> nat" where
  "quantum_shift x = nat (bitlen \<lfloor>\<bar>x\<bar> * 2 ^ e_min\<rfloor> - 53)"

definition round_double :: "real \<Rightarrow> real" where
  "round_double x = of_int (round_half_even (x * 2 ^ e_min / 2 ^ quantum_shift x))
            * 2 ^ quantum_shift x / 2 ^ e_min"

text \<open>The arithmetic of doubles: the exact result, rounded.\<close>

definition fadd :: "real \<Rightarrow> real \<Rightarrow> real" where
  "fadd a b = round_double (a + b)"

definition fsub :: "real \<Rightarrow> real \<Rightarrow> real" where
  "fsub a b = round_double (a - b)"

definition fdiv :: "real \<Rightarrow> real \<Rightarrow> real" where
  "fdiv a b = round_double (a / b)"

text \<open>
  The doubles nearest to 0.1, 7.7 and 7.8, and the double 0.10000000000000002, which
  follows the double nearest to 0.1.
\<close>

definition double_0_1 :: real where
  "double_0_1 = 3602879701896397 / 2 ^ 55"

definition double_7_7 :: real where
  "double_7_7 = 8669429282688205 / 2 ^ 50"

definition double_7_8 :: real where
  "double_7_8 = 8782019273372467 / 2 ^ 50"


text \<open>Python's \<open>a * b\<close> on floats: a \<open>NaN\<close> operand gives \<open>NaN\<close>.\<close>

fun fmul :: "pyfloat \<Rightarrow> pyfloat \<Rightarrow> pyfloat" where
  "fmul (Num a) (Num b) = Num (round_double (a * b))"
| "fmul _ _ = NaN"

text \<open>The finite entries of a sequence of floats, in order.\<close>

fun finite_values :: "pyfloat list \<Rightarrow> real list" where
  "finite_values [] = []"
| "finite_values (NaN # xs) = finite_values xs"
| "finite_values (Num x # xs) = x # finite_values xs"

text \<open>The exceptions the notebook's code can raise.\<close>

datatype py_error = KeyError string | IndexError | TypeError | ValueError

section \<open>Pixel scale (notebook section 2)\<close>

text \<open>
  A FITS header maps keywords to values; an opened file maps extension names to
  headers. \<open>hdul['SCI']\<close> and \<open>hdr['CDELT1']\<close> raise \<open>KeyError\<close> when the name is absent.
  The value of \<open>CDELT1\<close> is a number, as the FITS standard prescribes.
\<close>

type_synonym header = "string \<rightharpoonup> real"
type_synonym hdulist = "string \<rightharpoonup> header"

definition getitem :: "(string \<rightharpoonup> 'a) \<Rightarrow> string \<Rightarrow> py_error + 'a" where
  "getitem m k = (case m k of None \<Rightarrow> Inl (KeyError k) | Some v \<Rightarrow> Inr v)"

text \<open>
  The body of the \<open>with fits.open(filename) as hdul\<close> block:
  \<open>hdr = hdul['SCI'].header; cdelt1 = abs(hdr['CDELT1']) * 3600\<close>.
\<close>

definition read_cdelt1 :: "hdulist \<Rightarrow> py_error + real" where
  "read_cdelt1 hdul =
     (case getitem hdul ''SCI'' of
        Inl e \<Rightarrow> Inl e
      | Inr hdr \<Rightarrow>
          (case getitem hdr ''CDELT1'' of
             Inl e \<Rightarrow> Inl e
           | Inr c \<Rightarrow> Inr (\<bar>c\<bar> * 3600)))"

text \<open>
  \<open>scale = cosmo.kpc_proper_per_arcmin(z).to(u.pc/u.arcsec)\<close>. The cosmology is the
  library's (astropy's Planck18); its result at the redshift \<open>z\<close>, the proper transverse
  distance in kpc per arcminute, is the parameter \<open>kpc_per_arcmin\<close> here. The library
  computes it as the angular diameter distance times one arcminute in radians, which is
  \<open>0\<close> at redshift \<open>0\<close> and positive at every positive redshift. The unit conversion
  from kpc per arcminute to pc per arcsecond multiplies by \<open>1000 / 60\<close>.
\<close>

definition to_pc_per_arcsec :: "real \<Rightarrow> real" where
  "to_pc_per_arcsec kpc_per_arcmin = kpc_per_arcmin * 1000 / 60"

definition pix_scale_pc :: "real \<Rightarrow> real \<Rightarrow> real" where
  "pix_scale_pc cdelt1 kpc_per_arcmin = cdelt1 * to_pc_per_arcsec kpc_per_arcmin"

text \<open>
  The whole cell: the pair \<open>(cdelt1, pix_scale_pc)\<close> that the two \<open>print\<close> calls show,
  or the exception raised on the way.
\<close>

definition pixel_scale :: "hdulist \<Rightarrow> real \<Rightarrow> py_error + (real \<times> real)" where
  "pixel_scale hdul kpc_per_arcmin =
     (case read_cdelt1 hdul of
        Inl e \<Rightarrow> Inl e
      | Inr cdelt1 \<Rightarrow> Inr (cdelt1, pix_scale_pc cdelt1 kpc_per_arcmin))"

section \<open>Spectrum extraction from a region (notebook section 3)\<close>

text \<open>
  A two-dimensional NumPy array: its shape \<open>(ny, nx)\<close> and its entries, row index first.
  A data cube has shape \<open>(nlam, ny, nx)\<close>; \<open>data_cube[lam]\<close> is the slice \<open>lam\<close>.
\<close>

record array2d =
  ny :: nat
  nx :: nat
  pix :: "nat \<Rightarrow> nat \<Rightarrow> pyfloat"

record cube =
  nlam :: nat
  cube_ny :: nat
  cube_nx :: nat
  vox :: "nat \<Rightarrow> nat \<Rightarrow> nat \<Rightarrow> pyfloat"

definition cube_slice :: "cube \<Rightarrow> nat \<Rightarrow> array2d" where
  "cube_slice c lam = \<lparr>ny = cube_ny c, nx = cube_nx c, pix = vox c lam\<rparr>"

text \<open>
  A pixel region of the \<open>regions\<close> library, as far as \<open>to_mask\<close> reads it: its integer
  bounding box, covering the columns \<open>ixmin \<le> x < ixmax\<close> and the rows
  \<open>iymin \<le> y < iymax\<close>, and the test whether the centre of pixel \<open>(x, y)\<close> lies inside
  the shape. The library constructs bounding boxes with \<open>ixmin \<le> ixmax\<close> and
  \<open>iymin \<le> iymax\<close> only.
\<close>

record pixel_region =
  ixmin :: int
  ixmax :: int
  iymin :: int
  iymax :: int
  contains_centre :: "int \<Rightarrow> int \<Rightarrow> bool"

text \<open>
  \<open>region.to_mask(mode='center')\<close> returns a \<open>RegionMask\<close>: the bounding box together
  with an array of the box's shape that holds 1 where the pixel centre is inside the
  shape and 0 elsewhere (no partial-pixel weights).
\<close>

record region_mask =
  bbox_ixmin :: int
  bbox_ixmax :: int
  bbox_iymin :: int
  bbox_iymax :: int
  mask_data :: "bool list list"

definition to_mask_center :: "pixel_region \<Rightarrow> region_mask" where
  "to_mask_center r =
     \<lparr>bbox_ixmin = ixmin r, bbox_ixmax = ixmax r,
      bbox_iymin = iymin r, bbox_iymax = iymax r,
      mask_data = map (\<lambda>y. map (\<lambda>x. contains_centre r x y) [ixmin r..ixmax r - 1])
                      [iymin r..iymax r - 1]\<rparr>"

definition mask_shape :: "region_mask \<Rightarrow> nat \<times> nat" where
  "mask_shape m = (nat (bbox_iymax m - bbox_iymin m), nat (bbox_ixmax m - bbox_ixmin m))"

text \<open>
  \<open>RegionMask.cutout(data, fill_value)\<close> of the \<open>regions\<close> library. It crops \<open>data\<close> to
  the bounding box of the mask and does not read the mask array:
  \<^item> when the box starts at non-negative indices, it first takes
    \<open>data[iymin:iymax, ixmin:ixmax]\<close> (NumPy clips the slice to the array) and returns it
    if it has the shape of the mask, that is, if the box lies inside the array;
  \<^item> otherwise, when the box and the array do not overlap, it returns \<open>None\<close>;
  \<^item> otherwise it returns an array of the mask's shape that holds the data where the box
    overlaps the array and \<open>fill_value\<close> at the positions of the box outside the array.
\<close>

definition cutout :: "region_mask \<Rightarrow> array2d \<Rightarrow> pyfloat \<Rightarrow> pyfloat list list option" where
  "cutout m data fill_value =
     (let x0 = bbox_ixmin m; x1 = bbox_ixmax m; y0 = bbox_iymin m; y1 = bbox_iymax m;
          partial_overlap = (x0 < 0 \<or> y0 < 0);
          sliced_shape = (nat (min y1 (int (ny data)) - y0), nat (min x1 (int (nx data)) - x0))
      in if \<not> partial_overlap \<and> sliced_shape = mask_shape m
         then Some (map (\<lambda>y. map (\<lambda>x. pix data (nat y) (nat x)) [x0..x1 - 1]) [y0..y1 - 1])
         else if x0 \<ge> int (nx data) \<or> y0 \<ge> int (ny data) \<or> x1 \<le> 0 \<or> y1 \<le> 0
         then None
         else Some (map (\<lambda>y. map (\<lambda>x.
                  if 0 \<le> y \<and> y < int (ny data) \<and> 0 \<le> x \<and> x < int (nx data)
                  then pix data (nat y) (nat x) else fill_value) [x0..x1 - 1]) [y0..y1 - 1]))"

text \<open>
  \<open>np.sum\<close> of an array of doubles adds the elements pairwise. Fewer than 8 elements
  are added one after the other. Up to 128 elements are added in eight interleaved
  partial sums \<open>r[0], ..., r[7]\<close>, started with the first eight elements and fed with
  each further block of eight; the partial sums are combined as
  \<open>((r[0] + r[1]) + (r[2] + r[3])) + ((r[4] + r[5]) + (r[6] + r[7]))\<close> and the
  elements after the last full block are added one after the other. A longer array is
  split at half its length, rounded down to a multiple of eight, and the sums of the two
  parts are added. Every addition is rounded.
\<close>

fun accumulate8 :: "real list \<Rightarrow> real list \<Rightarrow> real list \<times> real list" where
  "accumulate8 r a =
     (if length a < 8 then (r, a)
      else accumulate8 (map2 fadd r (take 8 a)) (drop 8 a))"

declare accumulate8.simps [simp del]

definition tree8 :: "real list \<Rightarrow> real" where
  "tree8 r = fadd (fadd (fadd (r ! 0) (r ! 1)) (fadd (r ! 2) (r ! 3)))
                  (fadd (fadd (r ! 4) (r ! 5)) (fadd (r ! 6) (r ! 7)))"

function pairwise_sum :: "real list \<Rightarrow> real" where
  "pairwise_sum a =
     (if length a < 8 then (case a of [] \<Rightarrow> 0 | x # xs \<Rightarrow> foldl fadd x xs)
      else if length a \<le> 128
      then (case accumulate8 (take 8 a) (drop 8 a) of (r, rest) \<Rightarrow> foldl fadd (tree8 r) rest)
      else fadd (pairwise_sum (take (length a div 2 - length a div 2 mod 8) a))
                (pairwise_sum (drop (length a div 2 - length a div 2 mod 8) a)))"
  by pat_completeness auto

termination
proof (relation "measure length")
  show "wf (measure length)" by simp
next
  fix a :: "real list"
  assume "\<not> length a < 8" "\<not> length a \<le> 128"
  then show "(take (length a div 2 - length a div 2 mod 8) a, a) \<in> measure length"
    by simp
next
  fix a :: "real list"
  assume a: "\<not> length a < 8" "\<not> length a \<le> 128"
  have "length a div 2 mod 8 < 8" by simp
  moreover from a have "64 \<le> length a div 2" by simp
  ultimately have "0 < length a div 2 - length a div 2 mod 8" by linarith
  with a show "(drop (length a div 2 - length a div 2 mod 8) a, a) \<in> measure length"
    by simp
qed

declare pairwise_sum.simps [simp del]

text \<open>
  \<open>np.nanmean\<close> of the cutout. It replaces every \<open>NaN\<close> entry by 0, counts the entries
  that are not \<open>NaN\<close>, sums the array with \<open>np.sum\<close> and divides the sum by the count;
  with a count of 0 the result is \<open>NaN\<close> (with a warning, not an exception). On
  \<open>None\<close> it raises \<open>TypeError\<close>.
\<close>

fun replace_nan :: "pyfloat list \<Rightarrow> real list" where
  "replace_nan [] = []"
| "replace_nan (NaN # xs) = 0 # replace_nan xs"
| "replace_nan (Num x # xs) = x # replace_nan xs"

definition nanmean :: "pyfloat list list option \<Rightarrow> py_error + pyfloat" where
  "nanmean a =
     (case a of
        None \<Rightarrow> Inl TypeError
      | Some rows \<Rightarrow>
          (let arr = concat rows;
               cnt = length (finite_values arr);
               tot = pairwise_sum (replace_nan arr)
           in Inr (if cnt = 0 then NaN else Num (fdiv tot (real cnt)))))"

text \<open>The loop \<open>for lam in range(data_cube.shape[0])\<close>, appending to \<open>extracted_flux\<close>.\<close>

fun extract_loop :: "region_mask \<Rightarrow> cube \<Rightarrow> nat list \<Rightarrow> pyfloat list \<Rightarrow> py_error + pyfloat list" where
  "extract_loop m c [] extracted_flux = Inr extracted_flux"
| "extract_loop m c (lam # lams) extracted_flux =
     (let flux_slice = cube_slice c lam
      in case nanmean (cutout m flux_slice NaN) of
           Inl e \<Rightarrow> Inl e
         | Inr v \<Rightarrow> extract_loop m c lams (extracted_flux @ [v]))"

text \<open>
  \<open>extract_spectrum_from_region(data_cube, wcs, region_file)\<close>. The region file is given
  by the list of regions that \<open>Regions.read\<close> parses from it; taking element \<open>[0]\<close> of an
  empty list raises \<open>IndexError\<close>. The argument \<open>wcs\<close> is not used by the function.
\<close>

definition extract_spectrum_from_region :: "cube \<Rightarrow> 'w \<Rightarrow> pixel_region list \<Rightarrow> py_error + pyfloat list" where
  "extract_spectrum_from_region data_cube wcs region_file =
     (case region_file of
        [] \<Rightarrow> Inl IndexError
      | region # _ \<Rightarrow>
          extract_loop (to_mask_center region) data_cube [0..<nlam data_cube] [])"


text \<open>
  The values of a slice at the pixels inside the region: this is the subset of pixels
  over which the specification takes the mean.
\<close>

definition region_values :: "pixel_region \<Rightarrow> array2d \<Rightarrow> pyfloat list" where
  "region_values r a =
     concat (map (\<lambda>y. concat (map (\<lambda>x.
        if contains_centre r x y \<and> 0 \<le> y \<and> y < int (ny a) \<and> 0 \<le> x \<and> x < int (nx a)
        then [pix a (nat y) (nat x)] else []) [ixmin r..ixmax r - 1])) [iymin r..iymax r - 1])"

text \<open>
  Example inputs. \<open>disc_region\<close> is a circle of radius 1.2 pixels around the pixel
  \<open>(1, 1)\<close>: its bounding box is the 3 by 3 block of pixels \<open>0 \<le> x, y < 3\<close>, and the centres
  inside the circle are those of the middle pixel and its four edge neighbours; the four
  corner pixels of the box are outside the circle. \<open>far_region\<close> is the same circle
  around the pixel \<open>(11, 11)\<close>, and \<open>edge_region\<close> the same circle around the point
  \<open>(1, -1)\<close>: its bounding box covers the columns \<open>0 \<le> x < 3\<close> and the rows
  \<open>-2 \<le> y < 1\<close>, of which only the row \<open>y = 0\<close> lies in an array, and the centre
  of the pixel \<open>(1, 0)\<close> is inside the circle. \<open>cross_cube n v w\<close> is a cube of \<open>n\<close> slices of 3 by 3
  pixels that holds \<open>v\<close> at the five pixels inside \<open>disc_region\<close> and \<open>w\<close> at the four
  corners, in every slice.
\<close>

definition disc_region :: pixel_region where
  "disc_region = \<lparr>ixmin = 0, ixmax = 3, iymin = 0, iymax = 3,
                  contains_centre = (\<lambda>x y. (x - 1) * (x - 1) + (y - 1) * (y - 1) \<le> 1)\<rparr>"

definition far_region :: pixel_region where
  "far_region = \<lparr>ixmin = 10, ixmax = 13, iymin = 10, iymax = 13,
                 contains_centre = (\<lambda>x y. (x - 11) * (x - 11) + (y - 11) * (y - 11) \<le> 1)\<rparr>"


definition cross_cube :: "nat \<Rightarrow> pyfloat \<Rightarrow> pyfloat \<Rightarrow> cube" where
  "cross_cube n v w =
     \<lparr>nlam = n, cube_ny = 3, cube_nx = 3,
      vox = (\<lambda>lam y x. if x \<noteq> 1 \<and> y \<noteq> 1 then w else v)\<rparr>"

section \<open>Line overlay (notebook section 4)\<close>

text \<open>
  A wavelength/flux table (the data frame read from the CSV file) is the list of its
  rows, each the pair of the columns \<open>Wavelength [micron]\<close> and \<open>Flux\<close>. The line catalog
  \<open>lines\<close> is a dictionary literal, kept as the list of its items in insertion order.
\<close>

type_synonym table = "(pyfloat \<times> pyfloat) list"
type_synonym catalog = "(string \<times> real) list"

text \<open>
  \<open>Series.min()\<close> and \<open>Series.max()\<close> of pandas skip \<open>NaN\<close> entries and give \<open>NaN\<close> when
  nothing is left.
\<close>

definition series_min :: "pyfloat list \<Rightarrow> pyfloat" where
  "series_min s = (case finite_values s of [] \<Rightarrow> NaN | x # xs \<Rightarrow> Num (fold min xs x))"

definition series_max :: "pyfloat list \<Rightarrow> pyfloat" where
  "series_max s = (case finite_values s of [] \<Rightarrow> NaN | x # xs \<Rightarrow> Num (fold max xs x))"

text \<open>
  Python's built-in \<open>max\<close> over an iterable: it keeps the first item and replaces it by
  a later item only when that item compares greater; it raises \<open>ValueError\<close> on an empty
  iterable.
\<close>

definition builtin_max :: "pyfloat list \<Rightarrow> py_error + pyfloat" where
  "builtin_max s =
     (case s of
        [] \<Rightarrow> Inl ValueError
      | x # xs \<Rightarrow> Inr (fold (\<lambda>item maxitem. if fgt item maxitem then item else maxitem) xs x))"

text \<open>The drawing calls of the loop: \<open>plt.axvline(x=wl, ...)\<close> and \<open>plt.text(wl, y, name, ...)\<close>.\<close>

datatype plot_cmd = AxVLine real | PlotText real pyfloat string

fun overlay_loop :: "table \<Rightarrow> catalog \<Rightarrow> plot_cmd list \<Rightarrow> py_error + plot_cmd list" where
  "overlay_loop df [] drawn = Inr drawn"
| "overlay_loop df ((name, wl) # rest) drawn =
     (if flt (series_min (map fst df)) (Num wl) \<and> flt (Num wl) (series_max (map fst df))
      then (case builtin_max (map snd df) of
              Inl e \<Rightarrow> Inl e
            | Inr m \<Rightarrow>
                overlay_loop df rest
                  (drawn @ [AxVLine wl, PlotText wl (fmul m (Num (round_double (8 / 10)))) name]))
      else overlay_loop df rest drawn)"

definition overlay_lines :: "table \<Rightarrow> catalog \<Rightarrow> py_error + plot_cmd list" where
  "overlay_lines df lines = overlay_loop df lines []"

text \<open>
  The second argument of \<open>plt.text\<close>, \<open>max(flux)*0.8\<close>, for a table with at least one
  row.
\<close>

definition label_height :: "table \<Rightarrow> pyfloat" where
  "label_height df =
     (case builtin_max (map snd df) of
        Inl e \<Rightarrow> NaN
      | Inr m \<Rightarrow> fmul m (Num (round_double (8 / 10))))"

text \<open>
  A wavelength lies strictly inside the wavelength range of a table: strictly between the
  least and the greatest wavelength of the table (missing entries put aside).
\<close>

definition inside_range :: "table \<Rightarrow> real \<Rightarrow> bool" where
  "inside_range df wl \<longleftrightarrow>
     (let ws = finite_values (map fst df)
      in ws \<noteq> [] \<and> Min (set ws) < wl \<and> wl < Max (set ws))"

section \<open>Emission line summary (notebook section 6)\<close>

text \<open>The em-dash of the source's string literals, as its three UTF-8 bytes.\<close>

definition em_dash :: string where
  "em_dash = [CHR 0xE2, CHR 0x80, CHR 0x94]"

text \<open>
  \<open>"Region 1" if f1 > f2 else ("Region 2" if f2 > f1 else "Equal/\<emdash>")\<close>
\<close>

definition stronger_in :: "pyfloat \<Rightarrow> pyfloat \<Rightarrow> string" where
  "stronger_in f1 f2 =
     (if fgt f1 f2 then ''Region 1''
      else if fgt f2 f1 then ''Region 2''
      else ''Equal/'' @ em_dash)"

text \<open>
  \<open>detect_flux(df, wavelength, tol)\<close>: the boolean mask over the rows, \<open>mask.any()\<close>,
  and the maximum of the flux column at the rows where the mask is true.
\<close>

definition window_mask :: "table \<Rightarrow> real \<Rightarrow> real \<Rightarrow> bool list" where
  "window_mask df wavelength tol =
     map (\<lambda>row. fgt (fst row) (Num (fsub wavelength tol))
                \<and> flt (fst row) (Num (fadd wavelength tol))) df"

definition masked_flux :: "table \<Rightarrow> bool list \<Rightarrow> pyfloat list" where
  "masked_flux df msk = map (snd \<circ> fst) (filter snd (zip df msk))"

definition detect_flux :: "table \<Rightarrow> real \<Rightarrow> real \<Rightarrow> pyfloat" where
  "detect_flux df wavelength tol =
     (let msk = window_mask df wavelength tol
      in if list_ex id msk then series_max (masked_flux df msk) else NaN)"

text \<open>The loop calls \<open>detect_flux(df, wl)\<close>, with the default \<open>tol=0.1\<close>.\<close>

definition detect_flux_default :: "table \<Rightarrow> real \<Rightarrow> pyfloat" where
  "detect_flux_default df wavelength = detect_flux df wavelength (round_double (1 / 10))"

text \<open>
  The selection the specification describes: the rows whose wavelength lies strictly
  inside the open interval from \<open>w - t\<close> to \<open>w + t\<close>; and the same with the two
  ends of the interval rounded to doubles.
\<close>

definition in_window :: "real \<Rightarrow> real \<Rightarrow> pyfloat \<times> pyfloat \<Rightarrow> bool" where
  "in_window w t row = (case fst row of NaN \<Rightarrow> False | Num x \<Rightarrow> w - t < x \<and> x < w + t)"

definition in_rounded_window :: "real \<Rightarrow> real \<Rightarrow> pyfloat \<times> pyfloat \<Rightarrow> bool" where
  "in_rounded_window w t row =
     (case fst row of NaN \<Rightarrow> False | Num x \<Rightarrow> fsub w t < x \<and> x < fadd w t)"

text \<open>
  The format \<open>f"{x:.2f}"\<close>: the exact value of the double rounded to two decimals (a
  tie goes to the even neighbour), with a minus sign for a negative value.
\<close>

definition digit_char :: "nat \<Rightarrow> char" where
  "digit_char d = char_of (48 + d)"

fun digits :: "nat \<Rightarrow> string" where
  "digits n = (if n < 10 then [digit_char n] else digits (n div 10) @ [digit_char (n mod 10)])"

declare digits.simps [simp del]

definition format_2f :: "real \<Rightarrow> string" where
  "format_2f x =
     (let n = nat (round_half_even (\<bar>x\<bar> * 100))
      in (if x < 0 then ''-'' else []) @ digits (n div 100) @ ''.''
         @ [digit_char (n mod 100 div 10), digit_char (n mod 10)])"

text \<open>\<open>f"{f:.2f}" if not np.isnan(f) else "\<emdash>"\<close>\<close>

definition format_flux :: "pyfloat \<Rightarrow> string" where
  "format_flux f = (if \<not> isnan f then (case f of Num x \<Rightarrow> format_2f x | NaN \<Rightarrow> []) else em_dash)"

text \<open>One row of the summary table, and the table: one row per catalog line.\<close>

record summary_row =
  row_line :: string
  row_wavelength :: real
  region_1_flux :: string
  region_2_flux :: string
  row_stronger_in :: string

definition make_row :: "table \<Rightarrow> table \<Rightarrow> string \<Rightarrow> real \<Rightarrow> summary_row" where
  "make_row df1 df2 name wl =
     (let f1 = detect_flux_default df1 wl;
          f2 = detect_flux_default df2 wl
      in \<lparr>row_line = name, row_wavelength = wl,
          region_1_flux = format_flux f1,
          region_2_flux = format_flux f2,
          row_stronger_in = stronger_in f1 f2\<rparr>)"

definition line_table :: "table \<Rightarrow> table \<Rightarrow> catalog \<Rightarrow> summary_row list" where
  "line_table df1 df2 lines = map (\<lambda>(name, wl). make_row df1 df2 name wl) lines"

section \<open>Values that are summed without rounding\<close>

text \<open>
  The multiples \<open>k * u\<close> of a value \<open>u\<close> by natural numbers, the property that these
  multiples are doubles for every \<open>k\<close> up to \<open>n\<close> (as they are for an integer \<open>u\<close> with
  \<open>n * \<bar>u\<bar> < 2 ^ 53\<close>), and the sum of the absolute values of a list.
\<close>

definition grid :: "real \<Rightarrow> real set" where
  "grid u = {real k * u | k :: nat. True}"


definition mass :: "real list \<Rightarrow> real" where
  "mass xs = sum_list (map abs xs)"

section \<open>Comparisons with the missing marker\<close>

lemma fgt_nan [simp]: "\<not> fgt NaN b" "\<not> fgt a NaN"
  by (cases a; simp)+

lemma flt_nan [simp]: "\<not> flt NaN b" "\<not> flt a NaN"
  by (cases a; simp)+

section \<open>Rounding to doubles\<close>

lemma round_half_even_of_int [simp]: "round_half_even (of_int m) = m"
  by (simp add: round_half_even_def)

lemma bitlen_unique:
  assumes "(2::int) ^ a \<le> b" "b < 2 ^ Suc a"
  shows "bitlen b = int a + 1"
proof -
  have "(0::int) < 2 ^ a" by simp
  with assms(1) have pos: "0 < b" by linarith
  let ?n = "bitlen b"
  from bitlen_bounds [OF pos] have lo: "2 ^ nat (?n - 1) \<le> b" and hi: "b < 2 ^ nat ?n" by auto
  from lo assms(2) have "(2::int) ^ nat (?n - 1) < 2 ^ Suc a" by linarith
  then have 1: "nat (?n - 1) < Suc a" by (rule power_less_imp_less_exp [rotated]) simp
  from assms(1) hi have "(2::int) ^ a < 2 ^ nat ?n" by linarith
  then have 2: "a < nat ?n" by (rule power_less_imp_less_exp [rotated]) simp
  from 1 2 show ?thesis by linarith
qed

lemma quantum_shift_normal:
  assumes k: "k \<le> e_min" and lo: "2 ^ 52 \<le> \<bar>x\<bar> * 2 ^ k" and hi: "\<bar>x\<bar> * 2 ^ k < 2 ^ 53"
  shows "quantum_shift x = e_min - k"
proof -
  let ?y = "\<bar>x\<bar> * 2 ^ e_min"
  have split: "(2::real) ^ e_min = 2 ^ k * 2 ^ (e_min - k)"
    using k by (simp flip: power_add)
  have y: "?y = (\<bar>x\<bar> * 2 ^ k) * 2 ^ (e_min - k)"
    by (simp add: split)
  have "2 ^ 52 * 2 ^ (e_min - k) \<le> ?y"
    unfolding y using lo by (intro mult_right_mono) simp_all
  then have lo': "(2::real) ^ (52 + (e_min - k)) \<le> ?y" by (simp add: power_add)
  have "?y < 2 ^ 53 * 2 ^ (e_min - k)"
    unfolding y using hi by (intro mult_strict_right_mono) simp_all
  then have hi': "?y < (2::real) ^ Suc (52 + (e_min - k))" by (simp add: power_add)
  have "of_int (2 ^ (52 + (e_min - k))) \<le> ?y" using lo' by simp
  then have a: "(2::int) ^ (52 + (e_min - k)) \<le> \<lfloor>?y\<rfloor>" by (simp add: le_floor_iff)
  have "?y < of_int (2 ^ Suc (52 + (e_min - k)))" using hi' by simp
  then have b: "\<lfloor>?y\<rfloor> < (2::int) ^ Suc (52 + (e_min - k))" by (simp add: floor_less_iff)
  from bitlen_unique [OF a b] show ?thesis by (simp add: quantum_shift_def)
qed

lemma scale_div:
  fixes a :: real
  assumes "k \<le> e_min"
  shows "a * 2 ^ (e_min - k) / 2 ^ e_min = a / 2 ^ k"
proof -
  have "(2::real) ^ e_min = 2 ^ k * 2 ^ (e_min - k)"
    using assms by (simp flip: power_add)
  then show ?thesis by simp
qed

lemma round_double_normal:
  assumes k: "k \<le> e_min" and lo: "2 ^ 52 \<le> \<bar>x\<bar> * 2 ^ k" and hi: "\<bar>x\<bar> * 2 ^ k < 2 ^ 53"
  shows "round_double x = of_int (round_half_even (x * 2 ^ k)) / 2 ^ k"
proof -
  have s: "quantum_shift x = e_min - k" by (rule quantum_shift_normal [OF assms])
  have split: "(2::real) ^ e_min = 2 ^ k * 2 ^ (e_min - k)"
    using k by (simp flip: power_add)
  have "x * 2 ^ e_min / 2 ^ (e_min - k) = x * 2 ^ k" by (simp add: split)
  then show ?thesis unfolding round_double_def s by (simp only: scale_div [OF k])
qed

lemma round_double_zero [simp]: "round_double 0 = 0"
  by (simp add: round_double_def quantum_shift_def round_half_even_def)

lemma round_double_exact:
  assumes k: "k \<le> e_min" and m: "x * 2 ^ k = of_int m" and b: "\<bar>m\<bar> < 2 ^ 53"
  shows "round_double x = x"
proof (cases "m = 0")
  case True
  with m have "x = 0" by simp
  then show ?thesis by simp
next
  case False
  let ?s = "quantum_shift x"
  have split: "(2::real) ^ e_min = 2 ^ k * 2 ^ (e_min - k)"
    using k by (simp flip: power_add)
  have "\<bar>x * 2 ^ k\<bar> = \<bar>of_int m :: real\<bar>" using m by simp
  then have "\<bar>x\<bar> * 2 ^ k = of_int \<bar>m\<bar>" by (simp add: abs_mult)
  then have y: "\<bar>x\<bar> * 2 ^ e_min = of_int (\<bar>m\<bar> * 2 ^ (e_min - k))"
    by (simp add: split)
  have pos: "0 < \<bar>m\<bar>" using False by simp
  from b have "bitlen \<bar>m\<bar> \<le> 53" by (simp add: bitlen_le_iff_power)
  then have s: "?s \<le> e_min - k"
    unfolding quantum_shift_def y floor_of_int bitlen_pow2 [OF pos] by linarith
  have xk: "x = of_int m / 2 ^ k" using m by (simp add: field_simps)
  have "x * 2 ^ e_min = of_int m * 2 ^ (e_min - k)"
    unfolding xk by (simp add: split)
  also have "(2::real) ^ (e_min - k) = 2 ^ (e_min - k - ?s) * 2 ^ ?s"
    using s by (simp flip: power_add)
  finally have z: "x * 2 ^ e_min / 2 ^ ?s = of_int (m * 2 ^ (e_min - k - ?s))" by simp
  have "round_double x = of_int (m * 2 ^ (e_min - k - ?s)) * 2 ^ ?s / 2 ^ e_min"
    unfolding round_double_def z round_half_even_of_int ..
  also have "\<dots> = of_int m * (2 ^ (e_min - k - ?s) * 2 ^ ?s) / 2 ^ e_min" by simp
  also have "(2::real) ^ (e_min - k - ?s) * 2 ^ ?s = 2 ^ (e_min - k)"
    using s by (simp flip: power_add)
  also have "real_of_int m * 2 ^ (e_min - k) / 2 ^ e_min = of_int m / 2 ^ k"
    by (rule scale_div [OF k])
  also have "\<dots> = x" by (simp add: xk)
  finally show ?thesis .
qed

lemma round_double_of_int: "\<bar>m\<bar> < 2 ^ 53 \<Longrightarrow> round_double (of_int m) = of_int m"
  using round_double_exact [of 0 "of_int m" m] by simp

lemma round_double_numeral [simp]: "numeral w < (2::int) ^ 53 \<Longrightarrow> round_double (numeral w) = numeral w"
  using round_double_of_int [of "numeral w"] by simp

lemma round_double_one [simp]: "round_double 1 = 1"
  using round_double_of_int [of 1] by simp

lemma literal_0_1: "round_double (1 / 10) = double_0_1"
  unfolding double_0_1_def
  by (simp add: round_double_normal [of 56] round_half_even_def e_min_def)

lemma literal_7_7: "round_double (77 / 10) = double_7_7"
  unfolding double_7_7_def
  by (simp add: round_double_normal [of 50] round_half_even_def e_min_def)

lemma literal_7_8: "round_double (78 / 10) = double_7_8"
  unfolding double_7_8_def
  by (simp add: round_double_normal [of 50] round_half_even_def e_min_def)

section \<open>Sums that are free of rounding\<close>

lemma pairwise_sum_short:
  "length a < 8 \<Longrightarrow> pairwise_sum a = (case a of [] \<Rightarrow> 0 | x # xs \<Rightarrow> foldl fadd x xs)"
  by (subst pairwise_sum.simps) simp

lemma pairwise_sum_block:
  "8 \<le> length a \<Longrightarrow> length a \<le> 128 \<Longrightarrow>
   pairwise_sum a = (case accumulate8 (take 8 a) (drop 8 a) of (r, rest) \<Rightarrow> foldl fadd (tree8 r) rest)"
  by (subst pairwise_sum.simps) simp


lemma accumulate8_done: "length a < 8 \<Longrightarrow> accumulate8 r a = (r, a)"
  by (simp add: accumulate8.simps)



lemma grid_zero [simp]: "0 \<in> grid u"
  unfolding grid_def by (auto intro: exI [of _ 0])




lemma mass_Cons [simp]: "mass (x # xs) = \<bar>x\<bar> + mass xs"
  by (simp add: mass_def)

lemma mass_Nil [simp]: "mass [] = 0"
  by (simp add: mass_def)










section \<open>Properties of the pixel scale\<close>

text \<open>
  Claim C6. When the header of the \<open>SCI\<close> extension has no \<open>CDELT1\<close> field, the
  pixel-scale calculation raises \<open>KeyError\<close> for that field and computes nothing from a
  default; when the field is present, the calculation reads it and returns the angular
  and the physical pixel size.
\<close>

theorem pixel_scale_cdelt1_absent_or_present:
  "(hdul ''SCI'' = Some hdr \<and> hdr ''CDELT1'' = None \<longrightarrow>
      pixel_scale hdul s = Inl (KeyError ''CDELT1''))
   \<and> (hdul ''SCI'' = Some hdr \<and> hdr ''CDELT1'' = Some c \<longrightarrow>
      pixel_scale hdul s = Inr (\<bar>c\<bar> * 3600, \<bar>c\<bar> * 3600 * (s * 1000 / 60)))"
  by (simp add: pixel_scale_def read_cdelt1_def getitem_def pix_scale_pc_def to_pc_per_arcsec_def)

theorem pixel_scale_cdelt1_absent_or_present_witness:
  "[''SCI'' \<mapsto> Map.empty] ''SCI'' = Some Map.empty \<and> (Map.empty :: header) ''CDELT1'' = None
   \<and> pixel_scale [''SCI'' \<mapsto> Map.empty] 20 = Inl (KeyError ''CDELT1'')
   \<and> [''SCI'' \<mapsto> [''CDELT1'' \<mapsto> -2]] ''SCI'' = Some [''CDELT1'' \<mapsto> -2]
   \<and> [''CDELT1'' \<mapsto> (-2::real)] ''CDELT1'' = Some (-2)
   \<and> pixel_scale [''SCI'' \<mapsto> [''CDELT1'' \<mapsto> -2]] 3 = Inr (7200, 360000)"
  using pixel_scale_cdelt1_absent_or_present [of "[''SCI'' \<mapsto> Map.empty]" Map.empty 20 0]
    pixel_scale_cdelt1_absent_or_present [of "[''SCI'' \<mapsto> [''CDELT1'' \<mapsto> -2]]" "[''CDELT1'' \<mapsto> -2]" 3 "-2"]
  by simp




section \<open>Properties of the line summary\<close>

text \<open>
  Claim C2. In the "Stronger In" classification, when either detected flux is the missing
  marker, every comparison of the two is false and the row is classified "Equal/\<emdash>"
  whatever the other flux is; in particular for the fluxes 5.0 and missing.
\<close>

theorem stronger_in_missing:
  "(isnan f1 \<or> isnan f2 \<longrightarrow>
      \<not> fgt f1 f2 \<and> \<not> fgt f2 f1 \<and> \<not> flt f1 f2 \<and> \<not> flt f2 f1
      \<and> stronger_in f1 f2 = ''Equal/'' @ em_dash)
   \<and> stronger_in (Num 5) NaN = ''Equal/'' @ em_dash"
  by (cases f1; cases f2; simp add: stronger_in_def)

theorem stronger_in_missing_witness:
  "(isnan NaN \<or> isnan (Num 7)) \<and> stronger_in NaN (Num 7) = ''Equal/'' @ em_dash"
  using stronger_in_missing [of NaN "Num 7"] by simp

text \<open>
  Claim C10. Swapping the two tables swaps the two flux fields of the row of every
  catalog line, turns the classification "Region 1" into "Region 2" and "Region 2" into
  "Region 1", and leaves a row classified "Equal/\<emdash>" so classified.
\<close>

theorem make_row_swap_tables:
  "region_1_flux (make_row df2 df1 name wl) = region_2_flux (make_row df1 df2 name wl)
   \<and> region_2_flux (make_row df2 df1 name wl) = region_1_flux (make_row df1 df2 name wl)
   \<and> (row_stronger_in (make_row df1 df2 name wl) = ''Region 1''
        \<longrightarrow> row_stronger_in (make_row df2 df1 name wl) = ''Region 2'')
   \<and> (row_stronger_in (make_row df1 df2 name wl) = ''Region 2''
        \<longrightarrow> row_stronger_in (make_row df2 df1 name wl) = ''Region 1'')
   \<and> (row_stronger_in (make_row df1 df2 name wl) = ''Equal/'' @ em_dash
        \<longrightarrow> row_stronger_in (make_row df2 df1 name wl) = ''Equal/'' @ em_dash)"
  by (cases "detect_flux_default df1 wl"; cases "detect_flux_default df2 wl";
      simp add: make_row_def Let_def stronger_in_def)

lemma double_7_75_minus_0_1: "fsub (31 / 4) double_0_1 = 4306567143673037 / 2 ^ 49"
  unfolding fsub_def double_0_1_def
  by (simp add: round_double_normal [of 50] round_half_even_def e_min_def)

lemma double_7_75_plus_0_1: "fadd (31 / 4) double_0_1 = 4419157134357299 / 2 ^ 49"
  unfolding fadd_def double_0_1_def
  by (simp add: round_double_normal [of 50] round_half_even_def e_min_def)

lemma default_window_7_75:
  "window_mask [(Num (31 / 4), f)] (31 / 4) (round_double (1 / 10)) = [True]"
  unfolding window_mask_def literal_0_1 double_7_75_minus_0_1 double_7_75_plus_0_1 by simp

lemma detect_line_3: "detect_flux_default [(Num (31 / 4), Num 3)] (31 / 4) = Num 3"
  unfolding detect_flux_default_def detect_flux_def default_window_7_75
  by (simp add: masked_flux_def series_max_def)

lemma detect_line_45: "detect_flux_default [(Num (31 / 4), Num (9 / 2))] (31 / 4) = Num (9 / 2)"
  unfolding detect_flux_default_def detect_flux_def default_window_7_75
  by (simp add: masked_flux_def series_max_def)

lemma detect_line_empty: "detect_flux_default [] (31 / 4) = NaN"
  by (simp add: detect_flux_default_def detect_flux_def window_mask_def masked_flux_def series_max_def)

theorem make_row_swap_tables_witness:
  "row_stronger_in (make_row [(Num (31 / 4), Num 3)] [(Num (31 / 4), Num (9 / 2))] ''line'' (31 / 4))
     = ''Region 2''
   \<and> row_stronger_in (make_row [(Num (31 / 4), Num (9 / 2))] [(Num (31 / 4), Num 3)] ''line'' (31 / 4))
     = ''Region 1''
   \<and> row_stronger_in (make_row [(Num (31 / 4), Num 3)] [] ''line'' (31 / 4)) = ''Equal/'' @ em_dash
   \<and> row_stronger_in (make_row [] [(Num (31 / 4), Num 3)] ''line'' (31 / 4)) = ''Equal/'' @ em_dash"
  using make_row_swap_tables [of "[(Num (31 / 4), Num (9 / 2))]" "[(Num (31 / 4), Num 3)]" "''line''" "31 / 4"]
    make_row_swap_tables [of "[(Num (31 / 4), Num 3)]" "[(Num (31 / 4), Num (9 / 2))]" "''line''" "31 / 4"]
    make_row_swap_tables [of "[]" "[(Num (31 / 4), Num 3)]" "''line''" "31 / 4"]
  by (simp add: make_row_def detect_line_3 detect_line_45 detect_line_empty stronger_in_def)

lemma set_finite_values: "x \<in> set (finite_values s) \<longleftrightarrow> Num x \<in> set s"
  by (induction s rule: finite_values.induct) auto

lemma finite_values_Nil_iff: "finite_values s = [] \<longleftrightarrow> (\<forall>f \<in> set s. isnan f)"
  by (induction s rule: finite_values.induct) auto

lemma series_max_eq:
  "series_max s = (if finite_values s = [] then NaN else Num (Max (set (finite_values s))))"
  using Max.set_eq_fold [of _ "tl (finite_values s)"]
  by (cases "finite_values s") (simp_all add: series_max_def)

lemma series_min_eq:
  "series_min s = (if finite_values s = [] then NaN else Num (Min (set (finite_values s))))"
  using Min.set_eq_fold [of _ "tl (finite_values s)"]
  by (cases "finite_values s") (simp_all add: series_min_def)

lemma series_max_member: "s \<noteq> [] \<Longrightarrow> series_max s \<in> set s"
proof (cases "finite_values s = []")
  case True
  assume "s \<noteq> []"
  then obtain f where f: "f \<in> set s" by (cases s) auto
  with True have "isnan f" by (simp add: finite_values_Nil_iff)
  then have "f = NaN" by (cases f) auto
  with f True show ?thesis by (simp add: series_max_eq)
next
  case False
  then have "Max (set (finite_values s)) \<in> set (finite_values s)"
    by (intro Max_in) auto
  with False show ?thesis by (simp add: series_max_eq set_finite_values)
qed

lemma series_max_upper: "f \<in> set s \<Longrightarrow> \<not> fgt f (series_max s)"
proof (cases f)
  case NaN
  then show ?thesis by simp
next
  case (Num x)
  assume "f \<in> set s"
  with Num have x: "x \<in> set (finite_values s)" by (simp add: set_finite_values)
  then have "finite_values s \<noteq> []" by auto
  moreover from x have "x \<le> Max (set (finite_values s))" by (intro Max_ge) auto
  ultimately show ?thesis using Num by (simp add: series_max_eq del: Max_less_iff)
qed

lemma window_test:
  "(fgt a (Num lo) \<and> flt a (Num hi)) \<longleftrightarrow> (case a of NaN \<Rightarrow> False | Num x \<Rightarrow> lo < x \<and> x < hi)"
  by (cases a) auto

lemma window_mask_eq: "window_mask df w t = map (in_rounded_window w t) df"
  by (simp add: window_mask_def in_rounded_window_def window_test)

lemma masked_flux_map: "masked_flux df (map P df) = map snd (filter P df)"
  unfolding masked_flux_def by (induction df) auto

lemma list_ex_map_id: "list_ex id (map P df) \<longleftrightarrow> filter P df \<noteq> []"
  by (induction df) auto

lemma detect_flux_eq:
  "detect_flux df w t =
     (if filter (in_rounded_window w t) df = [] then NaN
      else series_max (map snd (filter (in_rounded_window w t) df)))"
  by (simp add: detect_flux_def Let_def window_mask_eq masked_flux_map list_ex_map_id)

lemma detect_flux_finite:
  "detect_flux df w t =
     (if finite_values (map snd (filter (in_rounded_window w t) df)) = [] then NaN
      else Num (Max (set (finite_values (map snd (filter (in_rounded_window w t) df))))))"
  by (simp add: detect_flux_eq series_max_eq)

lemma double_7_7_minus_0_1: "fsub double_7_7 double_0_1 = 8556839292003943 / 2 ^ 50"
  unfolding fsub_def double_7_7_def double_0_1_def
  by (simp add: round_double_normal [of 50] round_half_even_def e_min_def)

lemma double_7_7_plus_0_1: "fadd double_7_7 double_0_1 = double_7_8"
  unfolding fadd_def double_7_7_def double_0_1_def double_7_8_def
  by (simp add: round_double_normal [of 50] round_half_even_def e_min_def)

text \<open>
  Claim C3, as stated with the open interval from \<open>w - t\<close> to \<open>w + t\<close>, fails where
  the rounding of a window end matters. With \<open>w\<close> the double 7.7, \<open>t\<close> the double 0.1
  and a single row at the double 7.8, the wavelength of the row lies strictly inside the
  interval from \<open>w - t\<close> to \<open>w + t\<close>, yet \<open>w + t\<close> is rounded to the double 7.8, the
  row is not selected, and the result is the missing marker instead of the flux 1.
\<close>

theorem detect_flux_window_end_counterexample:
  "in_window double_7_7 double_0_1 (Num double_7_8, Num 1)
   \<and> detect_flux [(Num double_7_8, Num 1)] double_7_7 double_0_1 = NaN"
proof
  show "in_window double_7_7 double_0_1 (Num double_7_8, Num 1)"
    by (simp add: in_window_def double_7_7_def double_0_1_def double_7_8_def)
  have "window_mask [(Num double_7_8, Num 1)] double_7_7 double_0_1 = [False]"
    unfolding window_mask_def double_7_7_minus_0_1 double_7_7_plus_0_1 by simp
  then show "detect_flux [(Num double_7_8, Num 1)] double_7_7 double_0_1 = NaN"
    unfolding detect_flux_def Let_def by simp
qed

text \<open>
  Claim C3, amended. For every table, reference wavelength \<open>w\<close> and tolerance \<open>t\<close>,
  \<open>detect_flux\<close> selects exactly the rows whose wavelength lies strictly between the
  double-precision values of \<open>w - t\<close> and \<open>w + t\<close>. When no row is selected it returns
  the missing marker. When some row is selected it returns the maximum flux value among
  the selected rows, missing fluxes put aside. The tolerance defaults to the double 0.1.
\<close>

theorem detect_flux_window_maximum:
  "masked_flux df (window_mask df w t) = map snd (filter (in_rounded_window w t) df)
   \<and> (filter (in_rounded_window w t) df = [] \<longrightarrow> detect_flux df w t = NaN)
   \<and> (filter (in_rounded_window w t) df \<noteq> [] \<longrightarrow>
        detect_flux df w t =
          (if finite_values (map snd (filter (in_rounded_window w t) df)) = [] then NaN
           else Num (Max (set (finite_values (map snd (filter (in_rounded_window w t) df)))))))
   \<and> detect_flux_default df w = detect_flux df w (round_double (1 / 10))"
proof -
  let ?sel = "filter (in_rounded_window w t) df"
  have a: "masked_flux df (window_mask df w t) = map snd ?sel"
    by (simp add: window_mask_eq masked_flux_map)
  have b: "?sel = [] \<longrightarrow> detect_flux df w t = NaN"
    by (simp add: detect_flux_eq)
  have c: "detect_flux df w t =
          (if finite_values (map snd ?sel) = [] then NaN
           else Num (Max (set (finite_values (map snd ?sel)))))"
    by (rule detect_flux_finite)
  have e: "detect_flux_default df w = detect_flux df w (round_double (1 / 10))"
    by (simp add: detect_flux_default_def)
  from a b c e show ?thesis by blast
qed

lemma window_5_eighth: "fsub 5 (1 / 8) = 39 / 8" "fadd 5 (1 / 8) = 41 / 8"
  using round_double_exact [of 3 "39 / 8" 39] round_double_exact [of 3 "41 / 8" 41]
  by (simp_all add: fsub_def fadd_def e_min_def)

lemma in_window_ex1: "in_rounded_window 5 (1 / 8) (Num (81 / 16), f)"
  by (simp add: in_rounded_window_def window_5_eighth)

lemma in_window_ex2: "\<not> in_rounded_window 5 (1 / 8) (Num (41 / 8), f)"
  by (simp add: in_rounded_window_def window_5_eighth)

theorem detect_flux_window_maximum_witness:
  "filter (in_rounded_window 5 (1 / 8))
      [(Num (81 / 16), Num 2), (Num (41 / 8), Num 9), (Num (81 / 16), Num 3)]
      = [(Num (81 / 16), Num 2), (Num (81 / 16), Num 3)]
   \<and> detect_flux [(Num (81 / 16), Num 2), (Num (41 / 8), Num 9), (Num (81 / 16), Num 3)] 5 (1 / 8)
      = Num 3
   \<and> filter (in_rounded_window 5 (1 / 8)) [(Num (41 / 8), Num 9)] = []
   \<and> detect_flux [(Num (41 / 8), Num 9)] 5 (1 / 8) = NaN"
  using detect_flux_window_maximum
      [of "[(Num (81 / 16), Num 2), (Num (41 / 8), Num 9), (Num (81 / 16), Num 3)]" 5 "1 / 8"]
    detect_flux_window_maximum [of "[(Num (41 / 8), Num 9)]" 5 "1 / 8"]
  by (auto simp add: in_window_ex1 in_window_ex2)

lemma finite_values_drop_missing:
  "finite_values (map snd (filter P (filter (\<lambda>row. \<not> isnan (snd row)) df)))
     = finite_values (map snd (filter P df))"
proof (induction df)
  case Nil
  then show ?case by simp
next
  case (Cons row df)
  then show ?case by (cases "snd row") auto
qed

text \<open>
  Claim C9. Selected rows whose flux is the missing marker are ignored by the maximum:
  the result is the greatest of the selected fluxes that are numbers, and it does not
  change when the rows with a missing flux are removed from the table. When rows are
  selected but every selected flux is missing, the result is the missing marker, shown as
  the em-dash, as for an empty selection.
\<close>

theorem detect_flux_ignores_missing_flux:
  "detect_flux df w t =
     (let sel = masked_flux df (window_mask df w t)
      in if finite_values sel = [] then NaN else Num (Max (set (finite_values sel))))
   \<and> (masked_flux df (window_mask df w t) \<noteq> []
        \<and> (\<forall>f \<in> set (masked_flux df (window_mask df w t)). isnan f)
      \<longrightarrow> detect_flux df w t = NaN \<and> format_flux (detect_flux df w t) = em_dash)
   \<and> detect_flux (filter (\<lambda>row. \<not> isnan (snd row)) df) w t = detect_flux df w t"
proof -
  let ?sel = "masked_flux df (window_mask df w t)"
  have sel: "?sel = map snd (filter (in_rounded_window w t) df)"
    by (simp add: window_mask_eq masked_flux_map)
  have a: "detect_flux df w t =
     (let sel = ?sel in if finite_values sel = [] then NaN else Num (Max (set (finite_values sel))))"
    unfolding sel Let_def by (rule detect_flux_finite)
  have b: "?sel \<noteq> [] \<and> (\<forall>f \<in> set ?sel. isnan f)
      \<longrightarrow> detect_flux df w t = NaN \<and> format_flux (detect_flux df w t) = em_dash"
  proof
    assume "?sel \<noteq> [] \<and> (\<forall>f \<in> set ?sel. isnan f)"
    then have "finite_values ?sel = []" by (simp add: finite_values_Nil_iff)
    with a have "detect_flux df w t = NaN" by (simp add: Let_def)
    then show "detect_flux df w t = NaN \<and> format_flux (detect_flux df w t) = em_dash"
      by (simp add: format_flux_def)
  qed
  have c: "detect_flux (filter (\<lambda>row. \<not> isnan (snd row)) df) w t = detect_flux df w t"
    by (simp only: detect_flux_finite finite_values_drop_missing)
  from a b c show ?thesis by blast
qed

theorem detect_flux_ignores_missing_flux_witness:
  "masked_flux [(Num 5, NaN), (Num (81 / 16), NaN)]
      (window_mask [(Num 5, NaN), (Num (81 / 16), NaN)] 5 (1 / 8))
      = [NaN, NaN]
   \<and> detect_flux [(Num 5, NaN), (Num (81 / 16), NaN)] 5 (1 / 8) = NaN
   \<and> format_flux (detect_flux [(Num 5, NaN), (Num (81 / 16), NaN)] 5 (1 / 8)) = em_dash"
  using detect_flux_ignores_missing_flux [of "[(Num 5, NaN), (Num (81 / 16), NaN)]" 5 "1 / 8"]
  by (simp add: masked_flux_def window_mask_def format_flux_def window_5_eighth)

section \<open>Properties of the line overlay\<close>

lemma range_test:
  "(flt (series_min (map fst df)) (Num wl) \<and> flt (Num wl) (series_max (map fst df)))
     = inside_range df wl"
  by (simp add: inside_range_def series_min_eq series_max_eq Let_def)

lemma inside_range_nonempty: "inside_range df wl \<Longrightarrow> df \<noteq> []"
  by (auto simp: inside_range_def)

lemma overlay_loop_eq:
  "overlay_loop df lines drawn =
     Inr (drawn @ concat (map (\<lambda>(name, wl).
            if inside_range df wl then [AxVLine wl, PlotText wl (label_height df) name] else [])
          lines))"
proof (induction lines arbitrary: drawn)
  case Nil
  then show ?case by simp
next
  case (Cons item lines)
  obtain name wl where item: "item = (name, wl)" by (cases item)
  show ?case
  proof (cases "inside_range df wl")
    case True
    then obtain row rest where "df = row # rest"
      using inside_range_nonempty by (cases df) auto
    then obtain m where m: "builtin_max (map snd df) = Inr m"
      by (simp add: builtin_max_def)
    with True item Cons.IH show ?thesis
      by (simp add: range_test label_height_def)
  next
    case False
    with item Cons.IH show ?thesis by (simp add: range_test)
  qed
qed

text \<open>
  Claim C5. For every table and catalog the overlay loop raises no exception, and it draws
  a vertical marker and a text label for a catalog wavelength if and only if that
  wavelength lies strictly between the least and the greatest wavelength of the table; a
  catalog wavelength equal to the least or to the greatest wavelength gets neither.
\<close>

theorem overlay_marks_lines_strictly_inside:
  "\<exists>drawn. overlay_lines df lines = Inr drawn
     \<and> (\<forall>wl. AxVLine wl \<in> set drawn \<longleftrightarrow> ((\<exists>name. (name, wl) \<in> set lines) \<and> inside_range df wl))
     \<and> (\<forall>wl name. (\<exists>y. PlotText wl y name \<in> set drawn)
                      \<longleftrightarrow> ((name, wl) \<in> set lines \<and> inside_range df wl))
     \<and> (\<forall>wl. finite_values (map fst df) \<noteq> []
            \<and> (wl = Min (set (finite_values (map fst df))) \<or> wl = Max (set (finite_values (map fst df))))
          \<longrightarrow> AxVLine wl \<notin> set drawn \<and> (\<forall>y name. PlotText wl y name \<notin> set drawn))"
proof -
  let ?drawn = "concat (map (\<lambda>(name, wl).
            if inside_range df wl then [AxVLine wl, PlotText wl (label_height df) name] else [])
          lines)"
  have r: "overlay_lines df lines = Inr ?drawn"
    by (simp add: overlay_lines_def overlay_loop_eq)
  have a: "AxVLine wl \<in> set ?drawn \<longleftrightarrow> ((\<exists>name. (name, wl) \<in> set lines) \<and> inside_range df wl)" for wl
    by (auto split: if_splits)
  have b: "(\<exists>y. PlotText wl y name \<in> set ?drawn) \<longleftrightarrow> ((name, wl) \<in> set lines \<and> inside_range df wl)" for wl name
    by (auto split: if_splits)
  have c: "finite_values (map fst df) \<noteq> []
            \<and> (wl = Min (set (finite_values (map fst df))) \<or> wl = Max (set (finite_values (map fst df))))
          \<longrightarrow> \<not> inside_range df wl" for wl
    unfolding inside_range_def Let_def by (metis less_irrefl)
  show ?thesis
    apply (rule exI [of _ ?drawn])
    apply (intro conjI allI)
       apply (rule r)
      apply (rule a)
     apply (rule b)
    using a b c apply blast
    done
qed

lemma inside_range_ex:
  "inside_range [(Num 5, Num 1), (Num 10, Num 5), (NaN, Num 3)] wl \<longleftrightarrow> 5 < wl \<and> wl < 10"
  by (simp add: inside_range_def)

lemma double_0_8: "round_double (8 / 10) = 3602879701896397 / 2 ^ 52"
  by (simp add: round_double_normal [of 53] round_half_even_def e_min_def)

lemma double_5_times_0_8: "round_double (5 * (3602879701896397 / 2 ^ 52)) = 4"
  by (simp add: round_double_normal [of 50] round_half_even_def e_min_def)

lemma label_at_5: "fmul (Num 5) (Num (round_double (8 / 10))) = Num 4"
  unfolding double_0_8 fmul.simps double_5_times_0_8 ..

lemma overlay_lines_ex:
  "overlay_lines [(Num 5, Num 1), (Num 10, Num 5), (NaN, Num 3)] [(''a'', 5), (''b'', 6), (''c'', 10)]
     = Inr [AxVLine 6, PlotText 6 (Num 4) ''b'']"
proof -
  have m: "builtin_max (map snd [(Num 5, Num 1), (Num 10, Num 5), (NaN, Num 3)]) = Inr (Num 5)"
    by (simp add: builtin_max_def)
  have r: "series_min (map fst [(Num 5, Num 1), (Num 10, Num 5), (NaN, Num 3)]) = Num 5"
    "series_max (map fst [(Num 5, Num 1), (Num 10, Num 5), (NaN, Num 3)]) = Num 10"
    by (simp_all add: series_min_def series_max_def)
  show ?thesis
    unfolding overlay_lines_def overlay_loop.simps r m sum.case label_at_5 by simp
qed

theorem overlay_marks_lines_strictly_inside_witness:
  "overlay_lines [(Num 5, Num 1), (Num 10, Num 5), (NaN, Num 3)] [(''a'', 5), (''b'', 6), (''c'', 10)]
     = Inr [AxVLine 6, PlotText 6 (Num 4) ''b'']
   \<and> (''b'', 6) \<in> set [(''a'', 5::real), (''b'', 6), (''c'', 10)]
   \<and> inside_range [(Num 5, Num 1), (Num 10, Num 5), (NaN, Num 3)] 6
   \<and> \<not> inside_range [(Num 5, Num 1), (Num 10, Num 5), (NaN, Num 3)] 5
   \<and> finite_values (map fst [(Num 5, Num 1), (Num 10, Num 5), (NaN, Num 3)]) \<noteq> []
   \<and> 5 = Min (set (finite_values (map fst [(Num 5, Num 1), (Num 10, Num 5), (NaN, Num 3)])))
   \<and> 10 = Max (set (finite_values (map fst [(Num 5, Num 1), (Num 10, Num 5), (NaN, Num 3)])))"
  using overlay_marks_lines_strictly_inside
    [of "[(Num 5, Num 1), (Num 10, Num 5), (NaN, Num 3)]" "[(''a'', 5), (''b'', 6), (''c'', 10)]"]
  by (simp add: overlay_lines_ex inside_range_ex)

section \<open>Properties of the spectrum extraction\<close>

lemma upto_0_2: "[0..2] = [0, 1, 2::int]"
  by (simp add: upto.simps)


lemma pairwise_sum_9:
  "pairwise_sum [a, b, c, d, e, f, g, h, i] =
     fadd (fadd (fadd (fadd a b) (fadd c d)) (fadd (fadd e f) (fadd g h))) i"
  by (simp add: pairwise_sum_block accumulate8_done tree8_def)

lemma pairwise_sum_5:
  "pairwise_sum [a, b, c, d, e] = fadd (fadd (fadd (fadd a b) c) d) e"
  by (simp add: pairwise_sum_short)

text \<open>
  Claim C1 says that the flux of a slice is the mean over exactly the pixels whose centre
  lies inside the region, so that it depends on the values of those pixels only. The
  extractor takes the mean over the whole bounding box of the region instead. Two cubes
  that hold the same values at the five pixels inside \<open>disc_region\<close> and differ at the
  four corner pixels of its bounding box give different fluxes, 1 and 5; the mean of the
  in-region values is 1 for both.
\<close>

theorem extract_flux_depends_on_pixels_outside_region:
  "region_values disc_region (cube_slice (cross_cube 1 (Num 1) (Num 1)) 0)
     = region_values disc_region (cube_slice (cross_cube 1 (Num 1) (Num 10)) 0)
   \<and> nanmean (Some [region_values disc_region (cube_slice (cross_cube 1 (Num 1) (Num 10)) 0)])
     = Inr (Num 1)
   \<and> extract_spectrum_from_region (cross_cube 1 (Num 1) (Num 1)) () [disc_region] = Inr [Num 1]
   \<and> extract_spectrum_from_region (cross_cube 1 (Num 1) (Num 10)) () [disc_region] = Inr [Num 5]"
  by (simp add: extract_spectrum_from_region_def to_mask_center_def disc_region_def cross_cube_def
      cube_slice_def cutout_def mask_shape_def nanmean_def region_values_def upto_0_2
      pairwise_sum_9 pairwise_sum_5 fadd_def fdiv_def)

text \<open>
  Claim C4 says that a slice in which the mask covers no valid pixel yields the missing
  marker and never an error. In the cube \<open>cross_cube 2 NaN (Num 2)\<close> every pixel inside
  \<open>disc_region\<close> is missing in both slices, yet the extractor returns 2 for both: the mean
  of the four corner pixels of the bounding box, which lie outside the region. For
  \<open>far_region\<close>, which covers no pixel of the cube at all, the extractor raises
  \<open>TypeError\<close> and returns no sequence.
\<close>

theorem extract_no_valid_region_pixel:
  "finite_values (region_values disc_region (cube_slice (cross_cube 2 NaN (Num 2)) 0)) = []
   \<and> finite_values (region_values disc_region (cube_slice (cross_cube 2 NaN (Num 2)) 1)) = []
   \<and> extract_spectrum_from_region (cross_cube 2 NaN (Num 2)) () [disc_region]
       = Inr [Num 2, Num 2]
   \<and> region_values far_region (cube_slice (cross_cube 2 NaN (Num 2)) 0) = []
   \<and> extract_spectrum_from_region (cross_cube 2 NaN (Num 2)) () [far_region] = Inl TypeError"
  by (simp add: extract_spectrum_from_region_def to_mask_center_def disc_region_def far_region_def
      cross_cube_def cube_slice_def cutout_def mask_shape_def nanmean_def region_values_def
      upto_0_2 upt_rec pairwise_sum_9 fadd_def fdiv_def)













lemma extract_loop_length:
  "\<forall>lam \<in> set lams. \<exists>v. nanmean (cutout m (cube_slice c lam) NaN) = Inr v \<Longrightarrow>
   \<exists>fl. extract_loop m c lams acc = Inr fl \<and> length fl = length acc + length lams"
proof (induction lams arbitrary: acc)
  case Nil
  then show ?case by simp
next
  case (Cons lam lams)
  then obtain v where v: "nanmean (cutout m (cube_slice c lam) NaN) = Inr v" by auto
  from Cons have "\<exists>fl. extract_loop m c lams (acc @ [v]) = Inr fl
      \<and> length fl = length (acc @ [v]) + length lams"
    by (intro Cons.IH) simp
  with v show ?case by simp
qed

lemma cutout_overlap:
  assumes "bbox_ixmin m < int (nx a)" "bbox_iymin m < int (ny a)" "0 < bbox_ixmax m" "0 < bbox_iymax m"
  shows "\<exists>rows. cutout m a fill_value = Some rows"
  using assms by (simp add: cutout_def Let_def)

text \<open>
  When the bounding box of the region overlaps the spatial extent of the cube, the
  extraction raises no exception and returns one entry per slice.
\<close>

lemma extract_one_entry_per_slice:
  assumes "ixmin r < int (cube_nx c)" "iymin r < int (cube_ny c)" "0 < ixmax r" "0 < iymax r"
  shows "\<exists>fl. extract_spectrum_from_region c wcs (r # rs) = Inr fl \<and> length fl = nlam c"
proof -
  let ?m = "to_mask_center r"
  have "\<exists>v. nanmean (cutout ?m (cube_slice c lam) NaN) = Inr v" for lam
  proof -
    from assms obtain rows where "cutout ?m (cube_slice c lam) NaN = Some rows"
      using cutout_overlap [of ?m "cube_slice c lam" NaN]
      by (auto simp: to_mask_center_def cube_slice_def)
    then show ?thesis by (simp add: nanmean_def Let_def)
  qed
  then have "\<exists>fl. extract_loop ?m c [0..<nlam c] [] = Inr fl
      \<and> length fl = length ([] :: pyfloat list) + length [0..<nlam c]"
    by (intro extract_loop_length) blast
  then show ?thesis by (simp add: extract_spectrum_from_region_def)
qed




end
